theory Spec2Isabelle
  imports Main
begin

section \<open>Values, record objects and the store\<close>

text \<open>
  The model of \<^verbatim>\<open>app/src/core/experiment/Experiment.ts\<close>.  Values that travel untyped
  through the code (error payloads, workflow descriptions, whatever a rejection handler
  receives) are JSON-like trees; \<open>JTypeError\<close> is the error object a property read on
  \<^verbatim>\<open>undefined\<close> or \<^verbatim>\<open>null\<close> throws.
\<close>

datatype jsval =
    JUndefined
  | JNull
  | JBool bool
  | JNum int
  | JStr string
  | JArr "jsval list"
  | JObj "(string \<times> jsval) list"
  | JTypeError

text \<open>
  The property read \<^verbatim>\<open>v.p\<close>.  It throws on \<^verbatim>\<open>undefined\<close> and \<^verbatim>\<open>null\<close>; an absent property
  reads as \<^verbatim>\<open>undefined\<close>.  The code reads only the properties \<^verbatim>\<open>data\<close> and \<^verbatim>\<open>error\<close> this
  way, which no primitive value, array or error object defines.
\<close>

fun get_prop :: "jsval \<Rightarrow> string \<Rightarrow> jsval + jsval" where
  "get_prop JUndefined p = Inl JTypeError"
| "get_prop JNull p = Inl JTypeError"
| "get_prop (JObj fs) p = Inr (case map_of fs p of None \<Rightarrow> JUndefined | Some v \<Rightarrow> v)"
| "get_prop v p = Inr JUndefined"

text \<open>
  The serialized channel records are mutable objects that the caller and the constructor
  share, so they live in a store: a reference is an address, an object a finite map from
  property names to values.
\<close>

type_synonym ref = nat
type_synonym obj = "string \<rightharpoonup> jsval"
type_synonym store = "ref \<Rightarrow> obj"

text \<open>
  \<^verbatim>\<open>_.extend(destination, source)\<close> copies every property of the source onto the
  destination object, in place, and returns the destination.
\<close>

definition extend_obj :: "store \<Rightarrow> ref \<Rightarrow> obj \<Rightarrow> store \<times> ref" where
  "extend_obj h destination source = (h(destination := h destination ++ source), destination)"

section \<open>The data model\<close>

text \<open>
  \<open>Layer\<close> and \<open>Channel\<close> are classes defined outside this file.  The records list the
  members the experiment reads (\<open>maxZoom\<close> of a layer; \<open>maxZ\<close>, \<open>minZ\<close> and \<open>layers\<close> of a
  channel), with z-planes and zoom levels as integers, and the \<open>visible\<close> flag of a
  channel.  The constructor of \<open>Channel\<close> is a parameter \<open>newChannel\<close> of everything that
  calls it: a function of the argument object's content at the time of the call, taken to
  return normally and to leave the store alone.
\<close>

record Layer =
  maxZoom :: int

record Channel =
  maxZ :: int
  minZ :: int
  layers :: "Layer list"
  visible :: bool

record MapobjectType =
  mo_id :: string
  mo_name :: string
  features :: "jsval list"

text \<open>
  The serialized experiment (\<open>ExperimentArgs = SerializedExperiment\<close>), with the fields
  the constructor reads; \<open>ser_channels\<close> holds references to the channel records.
\<close>

record SerializedExperiment =
  ser_id :: string
  ser_name :: string
  ser_description :: string
  ser_status :: string
  plate_format :: string
  microscope_type :: string
  plate_acquisition_mode :: string
  mapobject_types :: "MapobjectType list"
  workflow_description :: jsval
  ser_channels :: "ref list"

record Experiment =
  exp_id :: string
  name :: string
  description :: string
  plateFormat :: string
  microscopeType :: string
  mapobjectTypes :: "MapobjectType list"
  plateAcquisitionMode :: string
  channels :: "Channel list"
  workflowDescription :: jsval
  status :: string

section \<open>Construction\<close>

text \<open>
  The body of \<^verbatim>\<open>args.channels.forEach((ch) => ...)\<close>: \<open>chans\<close> is \<^verbatim>\<open>this.channels\<close>, which
  the loop reads (its length) and extends.
\<close>

fun forEach_channels ::
  "(obj \<Rightarrow> Channel) \<Rightarrow> ref list \<Rightarrow> Channel list \<Rightarrow> store \<Rightarrow> Channel list \<times> store" where
  "forEach_channels newChannel [] chans h = (chans, h)"
| "forEach_channels newChannel (ch # rest) chans h =
     (let isFirstChannel = (length chans = 0);
          (h', extended) = extend_obj h ch [''visible'' \<mapsto> JBool isFirstChannel];
          channel = newChannel (h' extended)
      in forEach_channels newChannel rest (chans @ [channel]) h')"

definition Experiment_new ::
  "(obj \<Rightarrow> Channel) \<Rightarrow> SerializedExperiment \<Rightarrow> store \<Rightarrow> Experiment \<times> store" where
  "Experiment_new newChannel args h =
     (let this = \<lparr>exp_id = ser_id args,
                  name = ser_name args,
                  description = ser_description args,
                  plateFormat = plate_format args,
                  microscopeType = microscope_type args,
                  mapobjectTypes = mapobject_types args,
                  plateAcquisitionMode = plate_acquisition_mode args,
                  channels = [],
                  workflowDescription = workflow_description args,
                  status = ser_status args\<rparr>;
          (chans, h') = forEach_channels newChannel (ser_channels args) (channels this) h
      in (this\<lparr>channels := chans\<rparr>, h'))"

section \<open>Derived projections\<close>

text \<open>
  \<^verbatim>\<open>xs[i]\<close> on an array: \<^verbatim>\<open>undefined\<close> (here \<open>None\<close>) out of range.
\<close>

definition index :: "'a list \<Rightarrow> nat \<Rightarrow> 'a option" where
  "index xs i = (if i < length xs then Some (xs ! i) else None)"

text \<open>
  The getter \<^verbatim>\<open>maxZoom\<close>: \<^verbatim>\<open>this.channels[0].layers[0].maxZoom\<close>.  Reading \<^verbatim>\<open>layers\<close> or
  \<^verbatim>\<open>maxZoom\<close> of \<^verbatim>\<open>undefined\<close> throws a TypeError.
\<close>

definition Experiment_maxZoom :: "Experiment \<Rightarrow> jsval + int" where
  "Experiment_maxZoom this =
     (case index (channels this) 0 of
        None \<Rightarrow> Inl JTypeError
      | Some ch \<Rightarrow>
          (case index (layers ch) 0 of
             None \<Rightarrow> Inl JTypeError
           | Some l \<Rightarrow> Inr (maxZoom l)))"

text \<open>
  The numbers \<^verbatim>\<open>Math.max\<close> and \<^verbatim>\<open>Math.min\<close> return here: an integer or one of the two
  infinities.  \<^verbatim>\<open>Math.max\<close> starts from \<open>-Infinity\<close> and keeps the largest argument seen,
  \<^verbatim>\<open>Math.min\<close> starts from \<open>+Infinity\<close> and keeps the smallest.
\<close>

datatype number = NegInfinity | Num int | PosInfinity

fun number_less :: "number \<Rightarrow> number \<Rightarrow> bool" where
  "number_less NegInfinity NegInfinity = False"
| "number_less NegInfinity y = True"
| "number_less (Num a) (Num b) = (a < b)"
| "number_less (Num a) PosInfinity = True"
| "number_less x y = False"

definition Math_max :: "number list \<Rightarrow> number" where
  "Math_max zs = foldl (\<lambda>highest x. if number_less highest x then x else highest) NegInfinity zs"

definition Math_min :: "number list \<Rightarrow> number" where
  "Math_min zs = foldl (\<lambda>lowest x. if number_less x lowest then x else lowest) PosInfinity zs"

text \<open>
  The getters \<^verbatim>\<open>maxZ\<close> and \<^verbatim>\<open>minZ\<close>: map every channel to its own value, then
  \<^verbatim>\<open>Math.max.apply(this, zs)\<close>, respectively \<^verbatim>\<open>Math.min.apply\<close>.  Neither statement can throw.
\<close>

definition Experiment_maxZ :: "Experiment \<Rightarrow> jsval + number" where
  "Experiment_maxZ this =
     (let zs = map (\<lambda>ch. Num (maxZ ch)) (channels this)
      in Inr (Math_max zs))"

definition Experiment_minZ :: "Experiment \<Rightarrow> jsval + number" where
  "Experiment_minZ this =
     (let zs = map (\<lambda>ch. Num (minZ ch)) (channels this)
      in Inr (Math_min zs))"

section \<open>Promises and the transport\<close>

text \<open>
  A promise is observed once the transport has settled or has been given up on: it is
  still pending, resolved with a value, or rejected with a reason.  A handler runs on a
  state \<open>'s\<close> (whatever it mutates) and returns normally (\<open>Inr\<close>) or throws (\<open>Inl\<close>).
  \<^verbatim>\<open>p.then(f)\<close> runs \<open>f\<close> when \<open>p\<close> resolves and passes a rejection on; \<^verbatim>\<open>p.catch(g)\<close> runs
  \<open>g\<close> when \<open>p\<close> is rejected and passes a resolution on.  The derived promise resolves
  with what the handler returns and is rejected with what it throws.
\<close>

datatype 'a promise = Pending | Resolved 'a | Rejected jsval

definition promise_then ::
  "'a promise \<Rightarrow> ('a \<Rightarrow> 's \<Rightarrow> (jsval + 'b) \<times> 's) \<Rightarrow> 's \<Rightarrow> 'b promise \<times> 's" where
  "promise_then p onFulfilled s =
     (case p of
        Pending \<Rightarrow> (Pending, s)
      | Rejected reason \<Rightarrow> (Rejected reason, s)
      | Resolved v \<Rightarrow>
          (case onFulfilled v s of
             (Inr y, s') \<Rightarrow> (Resolved y, s')
           | (Inl thrown, s') \<Rightarrow> (Rejected thrown, s')))"




text \<open>
  The transport \<^verbatim>\<open>$http\<close> is a parameter \<open>http\<close>: the promise each request ends in.  (The
  lookups \<^verbatim>\<open>$injector.get(...)\<close> that fetch the services are not modelled.)  A successful
  response is an object with the body under \<^verbatim>\<open>data\<close>, typed as the handler's annotation
  says; what a rejection handler receives is untyped: the transport's response object, or
  whatever an earlier handler threw.
\<close>

datatype request = HttpGet string | HttpDelete string | HttpPost string jsval

record 'd response =
  data :: 'd

record experiments_body =
  body_experiments :: "SerializedExperiment list"

record experiment_body =
  body_experiment :: SerializedExperiment

text \<open>The expression \<^verbatim>\<open>resp.data.error\<close> of the rejection handlers.\<close>

definition data_error :: "jsval \<Rightarrow> jsval + jsval" where
  "data_error resp =
     (case get_prop resp ''data'' of
        Inl thrown \<Rightarrow> Inl thrown
      | Inr d \<Rightarrow> get_prop d ''error'')"

section \<open>Lifecycle operations\<close>

text \<open>\<^verbatim>\<open>exps.map((e) => new Experiment(e))\<close>, left to right on the store.\<close>

fun map_Experiment_new ::
  "(obj \<Rightarrow> Channel) \<Rightarrow> SerializedExperiment list \<Rightarrow> store \<Rightarrow> Experiment list \<times> store" where
  "map_Experiment_new newChannel [] h = ([], h)"
| "map_Experiment_new newChannel (e # es) h =
     (let (x, h1) = Experiment_new newChannel e h;
          (xs, h2) = map_Experiment_new newChannel es h1
      in (x # xs, h2))"

definition Experiment_getAll ::
  "(obj \<Rightarrow> Channel) \<Rightarrow> (request \<Rightarrow> experiments_body response promise) \<Rightarrow> store
     \<Rightarrow> Experiment list promise \<times> store" where
  "Experiment_getAll newChannel http h =
     promise_then (http (HttpGet ''/api/experiments''))
       (\<lambda>resp h.
          let exps = body_experiments (data resp);
              (xs, h') = map_Experiment_new newChannel exps h
          in (Inr xs, h'))
       h"

definition Experiment_get ::
  "(obj \<Rightarrow> Channel) \<Rightarrow> (request \<Rightarrow> experiment_body response promise) \<Rightarrow> string \<Rightarrow> store
     \<Rightarrow> Experiment promise \<times> store" where
  "Experiment_get newChannel http ident h =
     promise_then (http (HttpGet (''/api/experiments/'' @ ident)))
       (\<lambda>resp h.
          let (x, h') = Experiment_new newChannel (body_experiment (data resp)) h
          in (Inr x, h'))
       h"






section \<open>Sample data\<close>

text \<open>
  A sample \<open>Channel\<close> class for concrete evaluation: it takes its members from the
  properties of the constructor argument, and its \<open>visible\<close> flag from the argument's
  \<^verbatim>\<open>visible\<close>.
\<close>

definition sampleChannel :: "obj \<Rightarrow> Channel" where
  "sampleChannel a =
     \<lparr>maxZ = (case a ''max_z'' of Some (JNum z) \<Rightarrow> z | _ \<Rightarrow> 0),
      minZ = (case a ''min_z'' of Some (JNum z) \<Rightarrow> z | _ \<Rightarrow> 0),
      layers = (case a ''max_zoom'' of Some (JNum z) \<Rightarrow> [\<lparr>maxZoom = z\<rparr>] | _ \<Rightarrow> []),
      visible = (a ''visible'' = Some (JBool True))\<rparr>"

text \<open>
  Two channel records at the addresses 0 and 1.  The first encodes \<^verbatim>\<open>visible: false\<close>, the
  second \<^verbatim>\<open>visible: true\<close>.
\<close>

definition sample_store :: store where
  "sample_store =
     (\<lambda>r. Map.empty)
       (0 := [''name'' \<mapsto> JStr ''DAPI'', ''min_z'' \<mapsto> JNum 0, ''max_z'' \<mapsto> JNum 5,
              ''max_zoom'' \<mapsto> JNum 6, ''visible'' \<mapsto> JBool False],
        1 := [''name'' \<mapsto> JStr ''GFP'', ''min_z'' \<mapsto> JNum (- 2), ''max_z'' \<mapsto> JNum 3,
              ''max_zoom'' \<mapsto> JNum 4, ''visible'' \<mapsto> JBool True])"

definition sample_args :: "ref list \<Rightarrow> SerializedExperiment" where
  "sample_args refs =
     \<lparr>ser_id = ''7'', ser_name = ''plate scan'', ser_description = ''demo'',
      ser_status = ''waiting'', plate_format = ''384'', microscope_type = ''cellvoyager'',
      plate_acquisition_mode = ''basic'', mapobject_types = [],
      workflow_description = JNull, ser_channels = refs\<rparr>"





definition succeeding_http :: "request \<Rightarrow> 'd \<Rightarrow> request \<Rightarrow> 'd response promise" where
  "succeeding_http expected body req = (if req = expected then Resolved \<lparr>data = body\<rparr> else Pending)"



section \<open>Facts about construction\<close>

lemma upd_visible_agree:
  "m1(k := None) = m2(k := None) \<Longrightarrow> m1(k \<mapsto> v) = m2(k \<mapsto> v)"
  by (metis fun_upd_upd)

lemma extend_obj_visible:
  "extend_obj h r [k \<mapsto> v] = (h(r := (h r)(k \<mapsto> v)), r)"
  by (simp add: extend_obj_def)

lemma forEach_channels_fst:
  "fst (forEach_channels newChannel refs chans h) =
     chans @ map (\<lambda>(i, r). newChannel ((h r)(''visible'' \<mapsto> JBool (i = 0))))
               (enumerate (length chans) refs)"
proof (induction refs arbitrary: chans h)
  case Nil
  show ?case by simp
next
  case (Cons ch rest)
  have same: "((h(ch := (h ch)(k \<mapsto> c))) r)(k \<mapsto> b) = (h r)(k \<mapsto> b)" for r k b c
    by simp
  show ?case
    by (simp add: extend_obj_visible Let_def Cons.IH same fun_upd_same del: fun_upd_apply)
qed

lemma forEach_channels_snd:
  "snd (forEach_channels newChannel refs chans h) =
     (\<lambda>r. if r \<in> set refs
          then (h r)(''visible'' \<mapsto> JBool (chans = [] \<and> r = hd refs \<and> r \<notin> set (tl refs)))
          else h r)"
proof (induction refs arbitrary: chans h)
  case Nil
  show ?case by simp
next
  case (Cons ch rest)
  show ?case
    by (auto simp add: extend_obj_def Let_def Cons.IH fun_eq_iff)
qed


lemma Experiment_new_channels:
  "channels (fst (Experiment_new newChannel args h)) =
     map (\<lambda>(i, r). newChannel ((h r)(''visible'' \<mapsto> JBool (i = 0))))
       (enumerate 0 (ser_channels args))"
  using forEach_channels_fst [of newChannel "ser_channels args" "[]" h]
  by (simp add: Experiment_new_def Let_def split_beta)

lemma Experiment_new_store:
  "snd (Experiment_new newChannel args h) =
     (\<lambda>r. if r \<in> set (ser_channels args)
          then (h r)(''visible'' \<mapsto>
                 JBool (r = hd (ser_channels args) \<and> r \<notin> set (tl (ser_channels args))))
          else h r)"
  using forEach_channels_snd [of newChannel "ser_channels args" "[]" h]
  by (simp add: Experiment_new_def Let_def split_beta cong: if_cong)

lemma Experiment_new_scalars:
  "fst (Experiment_new newChannel args h) =
     \<lparr>exp_id = ser_id args, name = ser_name args, description = ser_description args,
      plateFormat = plate_format args, microscopeType = microscope_type args,
      mapobjectTypes = mapobject_types args,
      plateAcquisitionMode = plate_acquisition_mode args,
      channels = channels (fst (Experiment_new newChannel args h)),
      workflowDescription = workflow_description args, status = ser_status args\<rparr>"
  by (simp add: Experiment_new_def Let_def split_beta)

lemma Experiment_new_cong:
  assumes "\<And>r. (h1 r)(''visible'' := None) = (h2 r)(''visible'' := None)"
  shows "fst (Experiment_new newChannel args h1) = fst (Experiment_new newChannel args h2)"
proof -
  have "(h1 r)(''visible'' \<mapsto> v) = (h2 r)(''visible'' \<mapsto> v)" for r v
    using assms [of r] by (rule upd_visible_agree)
  then have "channels (fst (Experiment_new newChannel args h1)) =
             channels (fst (Experiment_new newChannel args h2))"
    by (simp add: Experiment_new_channels)
  then show ?thesis
    by (subst Experiment_new_scalars, subst (2) Experiment_new_scalars) simp
qed

lemma Experiment_new_frame:
  "(snd (Experiment_new newChannel args h) r)(''visible'' := None) = (h r)(''visible'' := None)"
  by (simp add: Experiment_new_store)

lemma map_Experiment_new_fst:
  assumes "\<And>r. (h1 r)(''visible'' := None) = (h r)(''visible'' := None)"
  shows "fst (map_Experiment_new newChannel es h1) =
         map (\<lambda>e. fst (Experiment_new newChannel e h)) es"
  using assms
proof (induction es arbitrary: h1)
  case Nil
  show ?case by simp
next
  case (Cons e es)
  have agree: "(snd (Experiment_new newChannel e h1) r)(''visible'' := None) =
               (h r)(''visible'' := None)" for r
    unfolding Experiment_new_frame by (rule Cons.prems)
  have hd: "fst (Experiment_new newChannel e h1) = fst (Experiment_new newChannel e h)"
    using Cons.prems by (rule Experiment_new_cong)
  show ?case
    using Cons.IH [OF agree] hd by (simp add: split_beta Let_def)
qed

lemma foldl_max_Num:
  "foldl (\<lambda>highest x. if number_less highest x then x else highest) (Num a) (map Num zs) =
     Num (fold max zs a)"
  by (induction zs arbitrary: a) (auto simp add: max_def)

lemma foldl_min_Num:
  "foldl (\<lambda>lowest x. if number_less x lowest then x else lowest) (Num a) (map Num zs) =
     Num (fold min zs a)"
  by (induction zs arbitrary: a) (auto simp add: min_def)

lemma Math_max_Num:
  "zs \<noteq> [] \<Longrightarrow> Math_max (map Num zs) = Num (Max (set zs))"
  by (cases zs) (simp_all add: Math_max_def foldl_max_Num Max.set_eq_fold [symmetric])

lemma Math_min_Num:
  "zs \<noteq> [] \<Longrightarrow> Math_min (map Num zs) = Num (Min (set zs))"
  by (cases zs) (simp_all add: Math_min_def foldl_min_Num Min.set_eq_fold [symmetric])

lemma map_enumerate_positive:
  "map (\<lambda>(i, r). f (i = 0) r) (enumerate (Suc n) rs) = map (f False) rs"
  by (induction rs arbitrary: n) simp_all

lemma Experiment_new_channels_first:
  assumes "ser_channels args \<noteq> []"
  shows "channels (fst (Experiment_new newChannel args h)) =
           newChannel ((h (hd (ser_channels args)))(''visible'' \<mapsto> JBool True)) #
           map (\<lambda>r. newChannel ((h r)(''visible'' \<mapsto> JBool False))) (tl (ser_channels args))"
proof -
  obtain r rs where refs: "ser_channels args = r # rs"
    using assms by (cases "ser_channels args") auto
  have "map (\<lambda>(i, r). newChannel ((h r)(''visible'' \<mapsto> JBool (i = 0)))) (enumerate (Suc 0) rs) =
        map (\<lambda>r. newChannel ((h r)(''visible'' \<mapsto> JBool False))) rs"
    using map_enumerate_positive [of "\<lambda>b r. newChannel ((h r)(''visible'' \<mapsto> JBool b))" 0 rs]
    by simp
  then show ?thesis
    by (simp add: Experiment_new_channels refs)
qed

section \<open>Sample evaluation\<close>

lemma sample_channels:
  "channels (fst (Experiment_new sampleChannel (sample_args [0, 1]) sample_store)) =
     [\<lparr>maxZ = 5, minZ = 0, layers = [\<lparr>maxZoom = 6\<rparr>], visible = True\<rparr>,
      \<lparr>maxZ = 3, minZ = - 2, layers = [\<lparr>maxZoom = 4\<rparr>], visible = False\<rparr>]"
  by (simp add: Experiment_new_channels sample_args_def sample_store_def sampleChannel_def
      enumerate_eq_zip)

lemma sample_first_channel:
  "channels (fst (Experiment_new sampleChannel (sample_args [0]) sample_store)) =
     [\<lparr>maxZ = 5, minZ = 0, layers = [\<lparr>maxZoom = 6\<rparr>], visible = True\<rparr>]"
  by (simp add: Experiment_new_channels sample_args_def sample_store_def sampleChannel_def
      enumerate_eq_zip)




section \<open>The derived projections\<close>

text \<open>
  C3: for an experiment with at least one channel, \<open>maxZ\<close> is the maximum over all channels
  of the channel's own \<open>maxZ\<close>, and \<open>minZ\<close> the minimum over all channels of the channel's
  own \<open>minZ\<close>.
\<close>

theorem Experiment_maxZ_minZ_aggregate:
  assumes "channels e \<noteq> []"
  shows "Experiment_maxZ e = Inr (Num (Max (set (map maxZ (channels e))))) \<and>
         Experiment_minZ e = Inr (Num (Min (set (map minZ (channels e)))))"
proof -
  have "map (\<lambda>ch. Num (maxZ ch)) (channels e) = map Num (map maxZ (channels e))"
    and "map (\<lambda>ch. Num (minZ ch)) (channels e) = map Num (map minZ (channels e))"
    by simp_all
  then show ?thesis
    using assms
    by (simp add: Experiment_maxZ_def Experiment_minZ_def Math_max_Num Math_min_Num
        del: map_map)
qed

text \<open>
  The sample experiment has the channels (minZ, maxZ) = (0, 5) and (-2, 3): its \<open>maxZ\<close> is
  5 and its \<open>minZ\<close> is -2.
\<close>

theorem Experiment_maxZ_minZ_aggregate_witness:
  "channels (fst (Experiment_new sampleChannel (sample_args [0, 1]) sample_store)) \<noteq> [] \<and>
   Experiment_maxZ (fst (Experiment_new sampleChannel (sample_args [0, 1]) sample_store)) =
     Inr (Num 5) \<and>
   Experiment_minZ (fst (Experiment_new sampleChannel (sample_args [0, 1]) sample_store)) =
     Inr (Num (- 2))"
proof -
  let ?e = "fst (Experiment_new sampleChannel (sample_args [0, 1]) sample_store)"
  have ne: "channels ?e \<noteq> []"
    unfolding sample_channels by simp
  from Experiment_maxZ_minZ_aggregate [OF ne] show ?thesis
    unfolding sample_channels by simp
qed

text \<open>
  C4: when the first channel has a layer, \<open>maxZoom\<close> is the \<open>maxZoom\<close> of the first
  channel's first layer, and it reads nothing else: any experiment \<open>e'\<close> whose first
  channel's first layer is the same layer has the same \<open>maxZoom\<close>, whatever its other
  channels and layers are.
\<close>

theorem Experiment_maxZoom_first_layer_only:
  assumes "channels e = ch # chs" and "layers ch = l # ls"
    and "channels e' = ch' # chs'" and "layers ch' = l # ls'"
  shows "Experiment_maxZoom e = Inr (maxZoom l) \<and> Experiment_maxZoom e' = Experiment_maxZoom e"
  using assms by (simp add: Experiment_maxZoom_def index_def)

text \<open>
  The sample experiment's first layer has zoom 6, the second channel's layer zoom 4:
  \<open>maxZoom\<close> is 6, with or without the second channel.
\<close>

theorem Experiment_maxZoom_first_layer_only_witness:
  "Experiment_maxZoom (fst (Experiment_new sampleChannel (sample_args [0, 1]) sample_store)) = Inr 6 \<and>
   Experiment_maxZoom (fst (Experiment_new sampleChannel (sample_args [0]) sample_store)) =
   Experiment_maxZoom (fst (Experiment_new sampleChannel (sample_args [0, 1]) sample_store))"
proof -
  have l: "layers \<lparr>maxZ = 5, minZ = 0, layers = [\<lparr>maxZoom = 6\<rparr>], visible = True\<rparr> = \<lparr>maxZoom = 6\<rparr> # []"
    by simp
  from Experiment_maxZoom_first_layer_only [OF sample_channels l sample_first_channel l] show ?thesis
    by simp
qed

text \<open>
  C9, as stated, fails for two of the three projections: on the experiment built from a
  record without channels, \<open>maxZ\<close> and \<open>minZ\<close> return a value and signal nothing.
\<close>

theorem Experiment_maxZ_minZ_empty_no_error:
  "channels (fst (Experiment_new sampleChannel (sample_args []) sample_store)) = [] \<and>
   Experiment_maxZ (fst (Experiment_new sampleChannel (sample_args []) sample_store)) =
     Inr NegInfinity \<and>
   Experiment_minZ (fst (Experiment_new sampleChannel (sample_args []) sample_store)) =
     Inr PosInfinity"
  by (simp add: Experiment_maxZ_def Experiment_minZ_def Math_max_def Math_min_def
      Experiment_new_channels sample_args_def)

text \<open>
  C9, amended: on an experiment without channels, \<open>maxZoom\<close> signals a TypeError at the
  read through \<^verbatim>\<open>channels[0]\<close>, while \<open>maxZ\<close> evaluates to \<open>-Infinity\<close> and \<open>minZ\<close> to
  \<open>+Infinity\<close> without an error.  None of the three tests for the empty case.
\<close>

theorem Experiment_projections_empty:
  assumes "channels e = []"
  shows "Experiment_maxZoom e = Inl JTypeError \<and>
         Experiment_maxZ e = Inr NegInfinity \<and>
         Experiment_minZ e = Inr PosInfinity"
  using assms
  by (simp add: Experiment_maxZoom_def index_def Experiment_maxZ_def Experiment_minZ_def
      Math_max_def Math_min_def)

text \<open>The experiment built from a record without channels has none, and its \<open>maxZoom\<close> throws.\<close>

theorem Experiment_projections_empty_witness:
  "channels (fst (Experiment_new sampleChannel (sample_args []) sample_store)) = [] \<and>
   Experiment_maxZoom (fst (Experiment_new sampleChannel (sample_args []) sample_store)) =
     Inl JTypeError \<and>
   Experiment_maxZ (fst (Experiment_new sampleChannel (sample_args []) sample_store)) =
     Inr NegInfinity \<and>
   Experiment_minZ (fst (Experiment_new sampleChannel (sample_args []) sample_store)) =
     Inr PosInfinity"
proof -
  have e: "channels (fst (Experiment_new sampleChannel (sample_args []) sample_store)) = []"
    by (simp add: Experiment_new_channels sample_args_def)
  from Experiment_projections_empty [OF e] e show ?thesis
    by simp
qed

section \<open>The constructor\<close>

text \<open>
  C1: from a serialized record with N \<ge> 1 channel records, the constructor builds exactly N
  channels, one per record and in the records' order, with nothing dropped, merged or
  moved; the channel at index 0 is constructed with \<^verbatim>\<open>visible = true\<close> and every other one
  with \<^verbatim>\<open>visible = false\<close>.
\<close>

theorem Experiment_new_builds_channels:
  assumes "ser_channels args \<noteq> []"
  shows "length (channels (fst (Experiment_new newChannel args h))) = length (ser_channels args) \<and>
         channels (fst (Experiment_new newChannel args h)) =
           newChannel ((h (hd (ser_channels args)))(''visible'' \<mapsto> JBool True)) #
           map (\<lambda>r. newChannel ((h r)(''visible'' \<mapsto> JBool False))) (tl (ser_channels args))"
proof -
  have "length (channels (fst (Experiment_new newChannel args h))) = length (ser_channels args)"
    by (simp add: Experiment_new_channels)
  with Experiment_new_channels_first [OF assms] show ?thesis
    by blast
qed

text \<open>
  On the sample store the two records give two channels, the first constructed from
  record 0 with \<^verbatim>\<open>visible = true\<close>, the second from record 1 with \<^verbatim>\<open>visible = false\<close>.
\<close>

theorem Experiment_new_builds_channels_witness:
  "ser_channels (sample_args [0, 1]) \<noteq> [] \<and>
   length (channels (fst (Experiment_new sampleChannel (sample_args [0, 1]) sample_store))) = 2 \<and>
   channels (fst (Experiment_new sampleChannel (sample_args [0, 1]) sample_store)) =
     [sampleChannel ((sample_store 0)(''visible'' \<mapsto> JBool True)),
      sampleChannel ((sample_store 1)(''visible'' \<mapsto> JBool False))]"
proof -
  have ne: "ser_channels (sample_args [0, 1]) \<noteq> []"
    by (simp add: sample_args_def)
  from Experiment_new_builds_channels [OF ne, of sampleChannel sample_store] show ?thesis
    by (simp add: sample_args_def)
qed

text \<open>
  C2, as stated, fails: the claim has the flag a record encodes survive for every channel
  but the first.  The second sample record encodes \<^verbatim>\<open>visible: true\<close>; its channel is
  constructed with \<^verbatim>\<open>visible = false\<close>, and the record itself holds \<^verbatim>\<open>false\<close> afterwards.
\<close>

theorem Experiment_new_flag_not_preserved:
  "sample_store 1 ''visible'' = Some (JBool True) \<and>
   map visible (channels (fst (Experiment_new sampleChannel (sample_args [0, 1]) sample_store))) =
     [True, False] \<and>
   snd (Experiment_new sampleChannel (sample_args [0, 1]) sample_store) 1 ''visible'' =
     Some (JBool False)"
proof (intro conjI)
  show "sample_store 1 ''visible'' = Some (JBool True)"
    by (simp add: sample_store_def)
  show "map visible (channels (fst (Experiment_new sampleChannel (sample_args [0, 1]) sample_store))) =
     [True, False]"
    unfolding sample_channels by simp
  show "snd (Experiment_new sampleChannel (sample_args [0, 1]) sample_store) 1 ''visible'' =
     Some (JBool False)"
    by (simp add: Experiment_new_store sample_args_def sample_store_def)
qed

text \<open>
  C2, amended: the forced flag takes precedence over the record's own flag for every
  channel, not for the first only.  Whatever flags the records encode (\<open>flags r\<close>, a value
  or none), the first channel is constructed with \<^verbatim>\<open>visible = true\<close> and every other with
  \<^verbatim>\<open>visible = false\<close>, and after construction each record holds the forced flag.
\<close>

theorem Experiment_new_overrides_every_flag:
  assumes "ser_channels args \<noteq> []"
  shows "channels (fst (Experiment_new newChannel args (\<lambda>r. (h r)(''visible'' := flags r)))) =
           newChannel ((h (hd (ser_channels args)))(''visible'' \<mapsto> JBool True)) #
           map (\<lambda>r. newChannel ((h r)(''visible'' \<mapsto> JBool False))) (tl (ser_channels args)) \<and>
         (\<forall>r \<in> set (ser_channels args).
            snd (Experiment_new newChannel args (\<lambda>r. (h r)(''visible'' := flags r))) r ''visible'' =
              Some (JBool (r = hd (ser_channels args) \<and> r \<notin> set (tl (ser_channels args)))))"
  using Experiment_new_channels_first [OF assms, of newChannel "\<lambda>r. (h r)(''visible'' := flags r)"]
  by (simp add: Experiment_new_store)

text \<open>With every sample record encoding \<^verbatim>\<open>visible: true\<close>, only the first channel is visible.\<close>

theorem Experiment_new_overrides_every_flag_witness:
  "ser_channels (sample_args [0, 1]) \<noteq> [] \<and>
   map visible (channels (fst (Experiment_new sampleChannel (sample_args [0, 1])
      (\<lambda>r. (sample_store r)(''visible'' \<mapsto> JBool True))))) = [True, False] \<and>
   snd (Experiment_new sampleChannel (sample_args [0, 1])
      (\<lambda>r. (sample_store r)(''visible'' \<mapsto> JBool True))) 1 ''visible'' = Some (JBool False)"
proof -
  have ne: "ser_channels (sample_args [0, 1]) \<noteq> []"
    by (simp add: sample_args_def)
  from Experiment_new_overrides_every_flag [OF ne, of sampleChannel sample_store "\<lambda>r. Some (JBool True)"] show ?thesis
    by (simp add: sample_args_def sampleChannel_def)
qed

text \<open>
  C10: construction mutates its input.  Every channel record of the input's channel array
  has a \<^verbatim>\<open>visible\<close> property written into that very object in the store, its other
  properties untouched (a record listed once holds \<^verbatim>\<open>true\<close> if it is the first, \<^verbatim>\<open>false\<close>
  otherwise; the last write wins for a record listed twice); no other object changes.
\<close>

theorem Experiment_new_writes_records:
  "(\<forall>r \<in> set (ser_channels args).
      snd (Experiment_new newChannel args h) r =
        (h r)(''visible'' \<mapsto>
           JBool (r = hd (ser_channels args) \<and> r \<notin> set (tl (ser_channels args))))) \<and>
   (\<forall>r. r \<notin> set (ser_channels args) \<longrightarrow> snd (Experiment_new newChannel args h) r = h r)"
  by (simp add: Experiment_new_store)

text \<open>
  The sample records 0 and 1 encoded \<^verbatim>\<open>false\<close> and \<^verbatim>\<open>true\<close>; after construction they hold
  \<^verbatim>\<open>true\<close> and \<^verbatim>\<open>false\<close>.  The object at address 2, not a channel record, is as before.
\<close>

theorem Experiment_new_writes_records_witness:
  "sample_store 0 ''visible'' = Some (JBool False) \<and>
   snd (Experiment_new sampleChannel (sample_args [0, 1]) sample_store) 0 ''visible'' = Some (JBool True) \<and>
   sample_store 1 ''visible'' = Some (JBool True) \<and>
   snd (Experiment_new sampleChannel (sample_args [0, 1]) sample_store) 1 ''visible'' = Some (JBool False) \<and>
   snd (Experiment_new sampleChannel (sample_args [0, 1]) sample_store) 2 = sample_store 2"
  using Experiment_new_writes_records [of "sample_args [0, 1]" sampleChannel sample_store]
  by (simp add: sample_args_def sample_store_def)

section \<open>The lifecycle operations\<close>

text \<open>A rejection without a body makes the handler's own read of \<^verbatim>\<open>resp.data.error\<close> throw.\<close>

lemma data_error_without_body:
  "get_prop resp ''data'' = Inr JNull \<Longrightarrow> data_error resp = Inl JTypeError"
  by (simp add: data_error_def)










text \<open>
  C8: when the service answers with a list of serialized records, \<open>getAll\<close> resolves to one
  experiment per record, in the order of the list, each the experiment the constructor
  builds from its record.
\<close>

theorem Experiment_getAll_in_order:
  assumes "http (HttpGet ''/api/experiments'') = Resolved resp"
  shows "fst (Experiment_getAll newChannel http h) =
           Resolved (map (\<lambda>e. fst (Experiment_new newChannel e h)) (body_experiments (data resp)))"
  using assms map_Experiment_new_fst [of h h newChannel "body_experiments (data resp)"]
  by (simp add: Experiment_getAll_def promise_then_def split_beta Let_def)

text \<open>
  Two records, the second sharing a channel record with the first: two experiments, in
  the same order.
\<close>

theorem Experiment_getAll_in_order_witness:
  "succeeding_http (HttpGet ''/api/experiments'')
      \<lparr>body_experiments = [sample_args [0, 1], sample_args [1]]\<rparr> (HttpGet ''/api/experiments'') =
     Resolved \<lparr>data = \<lparr>body_experiments = [sample_args [0, 1], sample_args [1]]\<rparr>\<rparr> \<and>
   fst (Experiment_getAll sampleChannel
         (succeeding_http (HttpGet ''/api/experiments'')
            \<lparr>body_experiments = [sample_args [0, 1], sample_args [1]]\<rparr>) sample_store) =
     Resolved [fst (Experiment_new sampleChannel (sample_args [0, 1]) sample_store),
               fst (Experiment_new sampleChannel (sample_args [1]) sample_store)]"
proof -
  have ok: "succeeding_http (HttpGet ''/api/experiments'')
      \<lparr>body_experiments = [sample_args [0, 1], sample_args [1]]\<rparr> (HttpGet ''/api/experiments'') =
     Resolved \<lparr>data = \<lparr>body_experiments = [sample_args [0, 1], sample_args [1]]\<rparr>\<rparr>"
    by (simp add: succeeding_http_def)
  from Experiment_getAll_in_order [of "succeeding_http (HttpGet ''/api/experiments'')
      \<lparr>body_experiments = [sample_args [0, 1], sample_args [1]]\<rparr>" _ sampleChannel sample_store, OF ok] ok
  show ?thesis
    by simp
qed

end
